theory Spec2Isabelle
  imports Complex_Main
begin

section \<open>Python values, errors and native handles\<close>

text \<open>
  The Python layer of HOOMD-blue (\<^verbatim>\<open>hoomd/tune/balance.py\<close>, \<^verbatim>\<open>hoomd/md/force.py\<close>)
  configures objects in Python and hands the work to native (C++) classes that it
  looks up by name in the extension modules \<^verbatim>\<open>_hoomd\<close> and \<^verbatim>\<open>_md\<close>.
  An exception is a value \<open>Inl e\<close> of a sum type; a normal return is \<open>Inr v\<close>.
\<close>

datatype py_error =
    RuntimeError string
  | AttributeError string
  | KeyError string
  | ValueError string
  | NameError string

type_synonym handle = nat

text \<open>
  A manifold constraint object (\<^verbatim>\<open>hoomd.md.manifold.Manifold\<close>): the name of its
  class (\<^verbatim>\<open>__class__.__name__\<close>) and its native object, \<^verbatim>\<open>None\<close> until it is
  attached.
\<close>

record manifold =
  class_name :: string
  m_cpp_obj :: "handle option"

text \<open>
  The values the modelled code stores and passes on. A Python float is represented by
  the rational number it denotes (the literal \<^verbatim>\<open>1.02\<close> by \<open>51/50\<close>); the modelled code
  stores and compares floats and does no arithmetic on them.
\<close>

datatype py_value =
    PyBool bool
  | PyInt int
  | PyFloat rat
  | PyNone
  | PyHandle handle
  | PyTrigger handle
  | PyFilter handle
  | PyManifold manifold

text \<open>
  \<^verbatim>\<open>hoomd.device\<close>: the classes \<^verbatim>\<open>CPU\<close> and \<^verbatim>\<open>GPU\<close>, and \<open>Device\<close> for a device
  object that is an instance of neither. \<^verbatim>\<open>isinstance(d, hoomd.device.GPU)\<close> is
  \<open>d = GPU\<close>.
\<close>

datatype device = CPU | GPU | Device

record simulation =
  device :: device
  cpp_sys_def :: handle
  domain_decomposition :: handle
  get_group :: "py_value \<Rightarrow> handle"

text \<open>
  A native object is seen from Python through its attributes; a native class is its
  constructor, which may raise; an extension module maps the names it exports to
  classes. The modules themselves are built from C++ and are parameters of the model.
\<close>

type_synonym native = "(string \<times> py_value) list"
type_synonym native_class = "py_value list \<Rightarrow> py_error + native"
type_synonym native_module = "string \<Rightarrow> native_class option"

definition module_getattr :: "native_module \<Rightarrow> string \<Rightarrow> py_error + native_class" where
  "module_getattr m name =
     (case m name of None \<Rightarrow> Inl (AttributeError name) | Some cls \<Rightarrow> Inr cls)"

definition native_getattr :: "native \<Rightarrow> string \<Rightarrow> py_error + py_value" where
  "native_getattr obj attr =
     (case map_of obj attr of None \<Rightarrow> Inl (AttributeError attr) | Some v \<Rightarrow> Inr v)"

section \<open>ParameterDict\<close>

datatype py_type = TBool | TInt | TFloat | TTrigger | TFilter | TManifold

primrec type_of :: "py_value \<Rightarrow> py_type option" where
  "type_of (PyBool b) = Some TBool"
| "type_of (PyInt i) = Some TInt"
| "type_of (PyFloat f) = Some TFloat"
| "type_of PyNone = None"
| "type_of (PyHandle h) = None"
| "type_of (PyTrigger t) = Some TTrigger"
| "type_of (PyFilter f) = Some TFilter"
| "type_of (PyManifold m) = Some TManifold"

definition has_type :: "py_value \<Rightarrow> py_type \<Rightarrow> bool" where
  "has_type v ty = (type_of v = Some ty)"

text \<open>
  Modelled from the spec: the class \<^verbatim>\<open>ParameterDict\<close> of \<^verbatim>\<open>hoomd.parameterdicts\<close>,
  which is not among the source files. It recognizes the keys of its type
  specification and coerces a supplied value to the type declared for its key. A value
  that already has the declared type is stored as it is; how a value of another type
  is converted (or refused) is the parameter \<open>conv\<close>. A dictionary keeps its keys in
  insertion order, so the values are an association list.
\<close>

record parameter_dict =
  pd_types :: "(string \<times> py_type) list"
  pd_values :: "(string \<times> py_value) list"

type_synonym converter = "py_type \<Rightarrow> py_value \<Rightarrow> py_error + py_value"

definition coerce :: "converter \<Rightarrow> py_type \<Rightarrow> py_value \<Rightarrow> py_error + py_value" where
  "coerce conv ty v = (if has_type v ty then Inr v else conv ty v)"

text \<open>The converter that converts nothing: it refuses every value of another type.\<close>

definition strict_conv :: converter where
  "strict_conv ty v = Inl (ValueError ''wrong type'')"

primrec dict_set :: "string \<Rightarrow> 'v \<Rightarrow> (string \<times> 'v) list \<Rightarrow> (string \<times> 'v) list" where
  "dict_set k v [] = [(k, v)]"
| "dict_set k v (p # ps) = (if fst p = k then (k, v) # ps else p # dict_set k v ps)"

definition ParameterDict_getitem :: "parameter_dict \<Rightarrow> string \<Rightarrow> py_error + py_value" where
  "ParameterDict_getitem pd k =
     (case map_of (pd_values pd) k of None \<Rightarrow> Inl (KeyError k) | Some v \<Rightarrow> Inr v)"

definition ParameterDict_setitem ::
  "converter \<Rightarrow> parameter_dict \<Rightarrow> string \<Rightarrow> py_value \<Rightarrow> py_error + parameter_dict" where
  "ParameterDict_setitem conv pd k v =
     (case map_of (pd_types pd) k of
        None \<Rightarrow> Inl (KeyError k)
      | Some ty \<Rightarrow>
          (case coerce conv ty v of
             Inl e \<Rightarrow> Inl e
           | Inr w \<Rightarrow> Inr (pd\<lparr>pd_values := dict_set k w (pd_values pd)\<rparr>)))"

fun ParameterDict_update ::
  "converter \<Rightarrow> parameter_dict \<Rightarrow> (string \<times> py_value) list \<Rightarrow> py_error + parameter_dict" where
  "ParameterDict_update conv pd [] = Inr pd"
| "ParameterDict_update conv pd ((k, v) # kvs) =
     (case ParameterDict_setitem conv pd k v of
        Inl e \<Rightarrow> Inl e
      | Inr pd' \<Rightarrow> ParameterDict_update conv pd' kvs)"

section \<open>LoadBalancer (hoomd/tune/balance.py)\<close>

text \<open>
  \<^verbatim>\<open>LoadBalancer.__init__(self, trigger, x=True, y=True, z=True, tolerance=1.02,
  max_iterations=1)\<close>: a keyword argument that is not supplied is \<open>None\<close> here and takes
  the default of the signature. The constructor sets \<^verbatim>\<open>self._param_dict\<close> and nothing
  else, so its result is that dictionary, or the exception raised.
\<close>

definition arg_default :: "py_value option \<Rightarrow> py_value \<Rightarrow> py_value" where
  "arg_default supplied dflt = (case supplied of None \<Rightarrow> dflt | Some v \<Rightarrow> v)"

definition LoadBalancer_types :: "(string \<times> py_type) list" where
  "LoadBalancer_types =
     [(''x'', TBool), (''y'', TBool), (''z'', TBool),
      (''max_iterations'', TInt), (''tolerance'', TFloat), (''trigger'', TTrigger)]"

definition LoadBalancer_init ::
  "converter \<Rightarrow> py_value \<Rightarrow> py_value option \<Rightarrow> py_value option \<Rightarrow>
   py_value option \<Rightarrow> py_value option \<Rightarrow> py_value option \<Rightarrow> py_error + parameter_dict" where
  "LoadBalancer_init conv trigger x y z tolerance max_iterations =
     (let defaults =
            [(''x'', arg_default x (PyBool True)),
             (''y'', arg_default y (PyBool True)),
             (''z'', arg_default z (PyBool True)),
             (''tolerance'', arg_default tolerance (PyFloat (51 / 50))),
             (''max_iterations'', arg_default max_iterations (PyInt 1)),
             (''trigger'', trigger)];
          param_dict = \<lparr>pd_types = LoadBalancer_types, pd_values = []\<rparr>
      in ParameterDict_update conv param_dict defaults)"

text \<open>
  A load balancer that has been added to a simulation: \<^verbatim>\<open>self._simulation\<close>,
  \<^verbatim>\<open>self._param_dict\<close> and \<^verbatim>\<open>self._cpp_obj\<close>.
\<close>

record load_balancer =
  lb_simulation :: simulation
  lb_param_dict :: parameter_dict
  lb_cpp_obj :: "native option"

text \<open>
  \<^verbatim>\<open>LoadBalancer._attach\<close>: the native class is looked up in \<^verbatim>\<open>_hoomd\<close> under a name
  chosen by the device, constructed from the system definition, the domain
  decomposition and the trigger, and the base class finishes the attachment
  (\<open>super_attach\<close>, not among the source files). The attribute \<^verbatim>\<open>self.trigger\<close> is
  the entry of the parameter dictionary.
\<close>

definition LoadBalancer_attach ::
  "native_module \<Rightarrow> (load_balancer \<Rightarrow> py_error + load_balancer) \<Rightarrow> load_balancer \<Rightarrow>
   py_error + load_balancer" where
  "LoadBalancer_attach hoomd super_attach self =
     (let sim = lb_simulation self in
      case (if device sim = GPU
            then module_getattr hoomd ''LoadBalancerGPU''
            else module_getattr hoomd ''LoadBalancer'') of
        Inl e \<Rightarrow> Inl e
      | Inr cpp_cls \<Rightarrow>
          (case ParameterDict_getitem (lb_param_dict self) ''trigger'' of
             Inl e \<Rightarrow> Inl e
           | Inr trigger \<Rightarrow>
               (case cpp_cls [PyHandle (cpp_sys_def sim),
                              PyHandle (domain_decomposition sim), trigger] of
                  Inl e \<Rightarrow> Inl e
                | Inr obj \<Rightarrow> super_attach (self\<lparr>lb_cpp_obj := Some obj\<rparr>))))"

section \<open>Forces (hoomd/md/force.py)\<close>

subsection \<open>Custom\<close>

text \<open>
  A Custom force that has been added to a simulation: \<^verbatim>\<open>self._simulation\<close> and
  \<^verbatim>\<open>self._in_context_manager\<close>.
\<close>

record custom =
  c_simulation :: simulation
  in_context_manager :: bool

text \<open>
  The property \<^verbatim>\<open>Custom.gpu_local_force_arrays\<close>. The first guard raises when the
  device is a GPU device, as the source has it. The last line calls
  \<^verbatim>\<open>ForceLocalAccessGPU\<close>, a name that \<^verbatim>\<open>force.py\<close> neither defines nor imports: it is
  resolved in the global namespace of the module when the line runs. That namespace is
  the parameter \<open>globals\<close>; where the name is unbound, as it is in the module the
  source gives, the line raises NameError, and where it is bound the class found there
  is called with the object and may raise.
\<close>

type_synonym 'r globals = "string \<Rightarrow> (custom \<Rightarrow> py_error + 'r) option"

definition gpu_local_force_arrays :: "'r globals \<Rightarrow> custom \<Rightarrow> py_error + 'r" where
  "gpu_local_force_arrays globals self =
     (if device (c_simulation self) = GPU
      then Inl (RuntimeError ''Cannot access gpu_local_force_arrays without a GPU device'')
      else if in_context_manager self
      then Inl (RuntimeError ''Cannot enter gpu_local_force_arrays context manager inside another local_force_arrays context manager'')
      else (case globals ''ForceLocalAccessGPU'' of
              None \<Rightarrow> Inl (NameError ''ForceLocalAccessGPU'')
            | Some cls \<Rightarrow> cls self))"

subsection \<open>Active and ActiveOnManifold\<close>

text \<open>
  An Active or ActiveOnManifold force that has been added to a simulation:
  \<^verbatim>\<open>self._simulation\<close>, \<^verbatim>\<open>self._param_dict\<close> and \<^verbatim>\<open>self._cpp_obj\<close>.
\<close>

record force =
  f_simulation :: simulation
  f_param_dict :: parameter_dict
  f_cpp_obj :: "native option"

text \<open>
  Modelled from the spec: the flag \<^verbatim>\<open>_attached\<close> of the base class
  \<^verbatim>\<open>_HOOMDBaseObject\<close>, which is not among the source files. An object is either
  detached, holding its local configuration only, or attached, holding a native engine
  handle: it is attached exactly when it has a native object. The same holds for a
  manifold constraint.
\<close>

definition attached :: "force \<Rightarrow> bool" where
  "attached self = (f_cpp_obj self \<noteq> None)"

definition manifold_attached :: "manifold \<Rightarrow> bool" where
  "manifold_attached m = (m_cpp_obj m \<noteq> None)"

text \<open>
  \<^verbatim>\<open>Active._attach\<close>. The attribute \<^verbatim>\<open>self.filter\<close> is the entry of the parameter
  dictionary.
\<close>

definition Active_attach ::
  "native_module \<Rightarrow> (force \<Rightarrow> py_error + force) \<Rightarrow> force \<Rightarrow> py_error + force" where
  "Active_attach md super_attach self =
     (let sim = f_simulation self in
      case (if device sim = CPU
            then module_getattr md ''ActiveForceCompute''
            else module_getattr md ''ActiveForceComputeGPU'') of
        Inl e \<Rightarrow> Inl e
      | Inr my_class \<Rightarrow>
          (case ParameterDict_getitem (f_param_dict self) ''filter'' of
             Inl e \<Rightarrow> Inl e
           | Inr flt \<Rightarrow>
               (case my_class [PyHandle (cpp_sys_def sim), PyHandle (get_group sim flt)] of
                  Inl e \<Rightarrow> Inl e
                | Inr obj \<Rightarrow> super_attach (self\<lparr>f_cpp_obj := Some obj\<rparr>))))"

text \<open>\<^verbatim>\<open>ActiveOnManifold._getattr_param\<close>.\<close>

definition getattr_param :: "force \<Rightarrow> string \<Rightarrow> py_error + py_value" where
  "getattr_param self attr =
     (if attached self then
        (if attr = ''manifold_constraint''
         then ParameterDict_getitem (f_param_dict self) ''manifold_constraint''
         else (case f_cpp_obj self of
                 Some obj \<Rightarrow> native_getattr obj attr
               | None \<Rightarrow> Inl (AttributeError attr)))
      else ParameterDict_getitem (f_param_dict self) attr)"

text \<open>
  \<^verbatim>\<open>ActiveOnManifold._setattr_param\<close>: the result is the exception raised, if any,
  and the object as the call leaves it. The setter of the base class
  (\<open>super_setattr_param\<close>) is not among the source files.
\<close>

definition setattr_param ::
  "(force \<Rightarrow> string \<Rightarrow> py_value \<Rightarrow> py_error option \<times> force) \<Rightarrow>
   force \<Rightarrow> string \<Rightarrow> py_value \<Rightarrow> py_error option \<times> force" where
  "setattr_param super_setattr_param self attr v =
     (if attr = ''manifold_constraint''
      then (Some (AttributeError ''Cannot set manifold_constraint after construction.''), self)
      else super_setattr_param self attr v)"

text \<open>
  \<^verbatim>\<open>ActiveOnManifold._attach\<close>. The manifold constraint is read through
  \<open>getattr_param\<close>; attaching it (\<open>manifold_attach\<close>, not among the source files)
  gives it a native object and mutates the object the parameter dictionary refers to.
  ActiveOnManifold is a subclass of Active, so the closing \<^verbatim>\<open>super()._attach()\<close> is
  \<^verbatim>\<open>Active._attach\<close>, on the same module \<^verbatim>\<open>_md\<close>: it looks up the class of an Active
  force and assigns \<^verbatim>\<open>self._cpp_obj\<close> once more. Only the attachment of the base class
  beyond Active (\<open>super_attach\<close>) is not among the source files.
\<close>

definition ActiveOnManifold_attach ::
  "native_module \<Rightarrow> (manifold \<Rightarrow> py_error + handle) \<Rightarrow> (force \<Rightarrow> py_error + force) \<Rightarrow>
   force \<Rightarrow> py_error + force" where
  "ActiveOnManifold_attach md manifold_attach super_attach self =
     (let sim = f_simulation self in
      case getattr_param self ''manifold_constraint'' of
        Inl e \<Rightarrow> Inl e
      | Inr (PyManifold m) \<Rightarrow>
          (case (if \<not> manifold_attached m
                 then map_sum id (\<lambda>h. m\<lparr>m_cpp_obj := Some h\<rparr>) (manifold_attach m)
                 else Inr m) of
             Inl e \<Rightarrow> Inl e
           | Inr m' \<Rightarrow>
               (let self' = self\<lparr>f_param_dict := (f_param_dict self)
                              \<lparr>pd_values := dict_set ''manifold_constraint'' (PyManifold m')
                                              (pd_values (f_param_dict self))\<rparr>\<rparr>;
                    base_class_str = ''ActiveForceConstraintCompute'';
                    base_class_str = base_class_str @ class_name m';
                    base_class_str =
                      (if device sim = GPU then base_class_str @ ''GPU'' else base_class_str)
                in case module_getattr md base_class_str of
                     Inl e \<Rightarrow> Inl e
                   | Inr cls \<Rightarrow>
                       (case getattr_param self' ''filter'' of
                          Inl e \<Rightarrow> Inl e
                        | Inr flt \<Rightarrow>
                            (case cls [PyHandle (cpp_sys_def sim),
                                       PyHandle (get_group sim flt),
                                       (case m_cpp_obj m' of
                                          None \<Rightarrow> PyNone | Some h \<Rightarrow> PyHandle h)] of
                               Inl e \<Rightarrow> Inl e
                             | Inr obj \<Rightarrow>
                                 Active_attach md super_attach
                                   (self'\<lparr>f_cpp_obj := Some obj\<rparr>)))))
      | Inr _ \<Rightarrow> Inl (AttributeError ''_attached''))"

section \<open>The balancing engine\<close>

text \<open>
  Modelled from the spec: the native classes \<^verbatim>\<open>LoadBalancer\<close> and
  \<^verbatim>\<open>LoadBalancerGPU\<close> that \<^verbatim>\<open>LoadBalancer._attach\<close> constructs are C++ code that is
  not among the source files. What follows is the balancing algorithm as the
  specification describes it (DecompositionGrid, BalanceConfig, LoadSampler,
  AxisRebalancer, IterationController), over exact rational coordinates.
\<close>

datatype axis = AxisX | AxisY | AxisZ

text \<open>
  DecompositionGrid: for each axis the ordered sequence of boundary coordinates; the
  first and the last entry are the outer edges of the simulation box.
\<close>

record decomposition_grid =
  bounds_x :: "rat list"
  bounds_y :: "rat list"
  bounds_z :: "rat list"

primrec boundaries :: "decomposition_grid \<Rightarrow> axis \<Rightarrow> rat list" where
  "boundaries g AxisX = bounds_x g"
| "boundaries g AxisY = bounds_y g"
| "boundaries g AxisZ = bounds_z g"

primrec set_boundaries :: "decomposition_grid \<Rightarrow> axis \<Rightarrow> rat list \<Rightarrow> decomposition_grid" where
  "set_boundaries g AxisX bs = g\<lparr>bounds_x := bs\<rparr>"
| "set_boundaries g AxisY bs = g\<lparr>bounds_y := bs\<rparr>"
| "set_boundaries g AxisZ bs = g\<lparr>bounds_z := bs\<rparr>"

definition strictly_increasing :: "rat list \<Rightarrow> bool" where
  "strictly_increasing bs = sorted_wrt (<) bs"




text \<open>BalanceConfig: the enabled axes, the tolerance and the iteration budget.\<close>

record balance_config =
  cfg_x :: bool
  cfg_y :: bool
  cfg_z :: bool
  cfg_tolerance :: rat
  cfg_max_iterations :: int

primrec axis_enabled :: "balance_config \<Rightarrow> axis \<Rightarrow> bool" where
  "axis_enabled cfg AxisX = cfg_x cfg"
| "axis_enabled cfg AxisY = cfg_y cfg"
| "axis_enabled cfg AxisZ = cfg_z cfg"

text \<open>
  The external collaborators of an invocation: whether a multi-rank decomposition is
  active, the total particle count \<open>N\<close>, and the collective reductions of the
  LoadSampler, which give the per-rank counts and the slab loads along an axis for a
  grid.
\<close>

record balance_env =
  decomposition_active :: bool
  n_global :: nat
  rank_counts :: "decomposition_grid \<Rightarrow> nat list"
  slab_loads :: "decomposition_grid \<Rightarrow> axis \<Rightarrow> nat list"

text \<open>
  The shift an interior boundary would like to make, from the slab loads and the
  boundaries of its axis: proportional to the load difference of the two slabs it
  separates, zero-load slabs excluded. The specification fixes neither the factor nor
  the scaling, so the policy is a parameter.
\<close>

type_synonym shift_policy = "nat list \<Rightarrow> rat list \<Rightarrow> nat \<Rightarrow> rat"

text \<open>
  Boundary \<open>i\<close> lies between slab \<open>i\<close> and slab \<open>i + 1\<close>: its own slab is the one that
  ends at it, of width \<open>bs ! i - bs ! (i - 1)\<close>. Its shift is clamped to the minimum
  of 5% of that width and 50% of the distance to the nearest other boundary on either
  side. The boundary next to it on a side is counted whether or not it is an interior
  one (the docstring of \<^verbatim>\<open>LoadBalancer\<close>: not more than 5% of the current size, and
  not more than half the distance to its neighbours).
\<close>

definition interior :: "rat list \<Rightarrow> nat \<Rightarrow> bool" where
  "interior bs i = (0 < i \<and> i + 1 < length bs)"

definition max_shift :: "rat list \<Rightarrow> nat \<Rightarrow> rat" where
  "max_shift bs i =
     min (5 / 100 * (bs ! i - bs ! (i - 1)))
         (1 / 2 * min (bs ! i - bs ! (i - 1)) (bs ! (i + 1) - bs ! i))"

definition clamp_shift :: "rat \<Rightarrow> rat \<Rightarrow> rat" where
  "clamp_shift m d = max (- m) (min m d)"

definition AxisRebalancer :: "shift_policy \<Rightarrow> nat list \<Rightarrow> rat list \<Rightarrow> rat list" where
  "AxisRebalancer desired loads bs =
     map (\<lambda>i. if interior bs i
               then bs ! i + clamp_shift (max_shift bs i) (desired loads bs i)
               else bs ! i)
         [0..<length bs]"

text \<open>
  One pass of the IterationController: Sample (the slab loads of the grid as the pass
  finds it), then Adjust, axis by axis in the order x, y, z; a disabled axis passes
  through unchanged.
\<close>

definition adjust_axis ::
  "shift_policy \<Rightarrow> balance_config \<Rightarrow> (axis \<Rightarrow> nat list) \<Rightarrow> axis \<Rightarrow>
   decomposition_grid \<Rightarrow> decomposition_grid" where
  "adjust_axis desired cfg loads ax g =
     (if axis_enabled cfg ax
      then set_boundaries g ax (AxisRebalancer desired (loads ax) (boundaries g ax))
      else g)"

definition adjust_pass ::
  "shift_policy \<Rightarrow> balance_env \<Rightarrow> balance_config \<Rightarrow> decomposition_grid \<Rightarrow>
   decomposition_grid" where
  "adjust_pass desired env cfg g =
     (let loads = slab_loads env g
      in adjust_axis desired cfg loads AxisZ
           (adjust_axis desired cfg loads AxisY
              (adjust_axis desired cfg loads AxisX g)))"

text \<open>
  ImbalanceFactor and CheckConverged: the largest deviation of a rank's imbalance
  factor from 1 is at most the tolerance minus 1.
\<close>

definition imbalance_factor :: "nat \<Rightarrow> nat \<Rightarrow> nat \<Rightarrow> rat" where
  "imbalance_factor n p c = of_nat c / (of_nat n / of_nat p)"

definition converged :: "balance_env \<Rightarrow> balance_config \<Rightarrow> decomposition_grid \<Rightarrow> bool" where
  "converged env cfg g =
     list_all
       (\<lambda>c. \<bar>imbalance_factor (n_global env) (length (rank_counts env g)) c - 1\<bar>
               \<le> cfg_tolerance cfg - 1)
       (rank_counts env g)"

text \<open>
  Sample, Adjust, CheckConverged, and back to Sample until the grid has converged or
  the budget is spent: \<open>iterate\<close> with \<open>n\<close> makes at most \<open>n + 1\<close> passes.
\<close>

primrec iterate ::
  "shift_policy \<Rightarrow> balance_env \<Rightarrow> balance_config \<Rightarrow> nat \<Rightarrow> decomposition_grid \<Rightarrow>
   decomposition_grid" where
  "iterate desired env cfg 0 g = adjust_pass desired env cfg g"
| "iterate desired env cfg (Suc n) g =
     (let g' = adjust_pass desired env cfg g
      in if converged env cfg g' then g' else iterate desired env cfg n g')"

text \<open>
  An invocation: CheckEligible goes straight to Done, leaving the grid as it is, when
  no decomposition is active or there are no particles.
\<close>

definition invoke ::
  "shift_policy \<Rightarrow> balance_env \<Rightarrow> balance_config \<Rightarrow> decomposition_grid \<Rightarrow>
   decomposition_grid" where
  "invoke desired env cfg g =
     (if \<not> decomposition_active env \<or> n_global env = 0 then g
      else iterate desired env cfg (nat (cfg_max_iterations cfg - 1)) g)"

section \<open>Concrete objects\<close>

text \<open>Objects on which the theorems below are evaluated.\<close>

definition gpu_sim :: simulation where
  "gpu_sim = \<lparr>device = GPU, cpp_sys_def = 1, domain_decomposition = 2, get_group = (\<lambda>f. 3)\<rparr>"

definition cpu_sim :: simulation where
  "cpu_sim = \<lparr>device = CPU, cpp_sys_def = 1, domain_decomposition = 2, get_group = (\<lambda>f. 3)\<rparr>"

definition sphere :: manifold where
  "sphere = \<lparr>class_name = ''Sphere'', m_cpp_obj = None\<rparr>"

definition detached_force :: force where
  "detached_force =
     \<lparr>f_simulation = gpu_sim,
      f_param_dict =
        \<lparr>pd_types = [(''filter'', TFilter), (''manifold_constraint'', TManifold)],
         pd_values = [(''filter'', PyFilter 0), (''manifold_constraint'', PyManifold sphere)]\<rparr>,
      f_cpp_obj = None\<rparr>"

definition attached_force :: force where
  "attached_force = detached_force\<lparr>f_cpp_obj := Some [(''filter'', PyFilter 9)]\<rparr>"



text \<open>
  A global namespace in which \<^verbatim>\<open>ForceLocalAccessGPU\<close> is bound to a class whose object
  is the force it wraps.
\<close>

definition access_bound :: "custom globals" where
  "access_bound name = (if name = ''ForceLocalAccessGPU'' then Some Inr else None)"

definition grid0 :: decomposition_grid where
  "grid0 = \<lparr>bounds_x = [0, 10, 20, 30, 40], bounds_y = [0, 100, 101], bounds_z = [0, 40]\<rparr>"

definition env0 :: balance_env where
  "env0 =
     \<lparr>decomposition_active = True, n_global = 600,
      rank_counts = (\<lambda>g. [100, 100, 300, 100]),
      slab_loads = (\<lambda>g ax. if ax = AxisX then [100, 100, 300, 100] else [600])\<rparr>"

definition cfg0 :: balance_config where
  "cfg0 = \<lparr>cfg_x = True, cfg_y = True, cfg_z = True, cfg_tolerance = 51 / 50,
           cfg_max_iterations = 1\<rparr>"

section \<open>Construction of a LoadBalancer\<close>

lemma LoadBalancer_init_result:
  "(LoadBalancer_init conv trigger x y z tolerance max_iterations = Inr pd) =
   (\<exists>vx vy vz vt vm vtr.
      coerce conv TBool (arg_default x (PyBool True)) = Inr vx \<and>
      coerce conv TBool (arg_default y (PyBool True)) = Inr vy \<and>
      coerce conv TBool (arg_default z (PyBool True)) = Inr vz \<and>
      coerce conv TFloat (arg_default tolerance (PyFloat (51 / 50))) = Inr vt \<and>
      coerce conv TInt (arg_default max_iterations (PyInt 1)) = Inr vm \<and>
      coerce conv TTrigger trigger = Inr vtr \<and>
      pd = \<lparr>pd_types = LoadBalancer_types,
            pd_values = [(''x'', vx), (''y'', vy), (''z'', vz), (''tolerance'', vt),
                         (''max_iterations'', vm), (''trigger'', vtr)]\<rparr>)"
  by (auto simp add: LoadBalancer_init_def LoadBalancer_types_def ParameterDict_setitem_def
      split: sum.splits)

lemma coerce_same_type [simp]:
  "coerce conv TBool (PyBool b) = Inr (PyBool b)"
  "coerce conv TInt (PyInt i) = Inr (PyInt i)"
  "coerce conv TFloat (PyFloat f) = Inr (PyFloat f)"
  "coerce conv TTrigger (PyTrigger t) = Inr (PyTrigger t)"
  by (simp_all add: coerce_def has_type_def)

text \<open>
  Claim C1, as the specification states it: constructing a LoadBalancer with a
  tolerance below 1.0 or with max_iterations below 1 is rejected at construction time.
  The constructor does not do so. With tolerance 0.5 and max_iterations 0, and the
  converter that refuses whatever is not of the declared type already, construction
  succeeds and stores both values.
\<close>

theorem LoadBalancer_init_accepts_low_values:
  "(1 / 2 :: rat) < 1 \<and> (0 :: int) < 1 \<and>
   LoadBalancer_init strict_conv (PyTrigger 0) None None None
       (Some (PyFloat (1 / 2))) (Some (PyInt 0)) =
     Inr \<lparr>pd_types = LoadBalancer_types,
          pd_values = [(''x'', PyBool True), (''y'', PyBool True), (''z'', PyBool True),
                       (''tolerance'', PyFloat (1 / 2)), (''max_iterations'', PyInt 0),
                       (''trigger'', PyTrigger 0)]\<rparr>"
  by (simp add: LoadBalancer_init_result arg_default_def)

text \<open>
  Claim C1, amended: the constructor checks types only. Given a trigger, booleans, a
  float tolerance and an integer max_iterations, it succeeds and stores the values
  unchanged, whatever the tolerance and max_iterations are; and it raises exactly when
  one of the six values cannot be coerced to the type declared for its key.
\<close>

theorem LoadBalancer_init_checks_types_only:
  "LoadBalancer_init conv (PyTrigger t) (Some (PyBool bx)) (Some (PyBool by)) (Some (PyBool bz))
       (Some (PyFloat tol)) (Some (PyInt n)) =
     Inr \<lparr>pd_types = LoadBalancer_types,
          pd_values = [(''x'', PyBool bx), (''y'', PyBool by), (''z'', PyBool bz),
                       (''tolerance'', PyFloat tol), (''max_iterations'', PyInt n),
                       (''trigger'', PyTrigger t)]\<rparr> \<and>
   isl (LoadBalancer_init conv trigger x y z tolerance max_iterations) =
     (isl (coerce conv TBool (arg_default x (PyBool True))) \<or>
      isl (coerce conv TBool (arg_default y (PyBool True))) \<or>
      isl (coerce conv TBool (arg_default z (PyBool True))) \<or>
      isl (coerce conv TFloat (arg_default tolerance (PyFloat (51 / 50)))) \<or>
      isl (coerce conv TInt (arg_default max_iterations (PyInt 1))) \<or>
      isl (coerce conv TTrigger trigger))"
proof
  show "LoadBalancer_init conv (PyTrigger t) (Some (PyBool bx)) (Some (PyBool by))
       (Some (PyBool bz)) (Some (PyFloat tol)) (Some (PyInt n)) =
     Inr \<lparr>pd_types = LoadBalancer_types,
          pd_values = [(''x'', PyBool bx), (''y'', PyBool by), (''z'', PyBool bz),
                       (''tolerance'', PyFloat tol), (''max_iterations'', PyInt n),
                       (''trigger'', PyTrigger t)]\<rparr>"
    by (simp add: LoadBalancer_init_result arg_default_def)
  show "isl (LoadBalancer_init conv trigger x y z tolerance max_iterations) =
     (isl (coerce conv TBool (arg_default x (PyBool True))) \<or>
      isl (coerce conv TBool (arg_default y (PyBool True))) \<or>
      isl (coerce conv TBool (arg_default z (PyBool True))) \<or>
      isl (coerce conv TFloat (arg_default tolerance (PyFloat (51 / 50)))) \<or>
      isl (coerce conv TInt (arg_default max_iterations (PyInt 1))) \<or>
      isl (coerce conv TTrigger trigger))"
    by (auto simp add: LoadBalancer_init_def LoadBalancer_types_def ParameterDict_setitem_def
        split: sum.splits)
qed

text \<open>
  Claim C10: constructing a LoadBalancer from a trigger alone gives x = True, y = True,
  z = True, tolerance = 1.02 and max_iterations = 1; the parameter dictionary
  recognizes exactly the keys x, y, z (bool), tolerance (float), max_iterations (int)
  and trigger (Trigger); and what a successful construction stores under each key is
  the supplied value coerced to the type of the key.
\<close>

theorem LoadBalancer_init_defaults:
  "LoadBalancer_init conv (PyTrigger t) None None None None None =
     Inr \<lparr>pd_types = LoadBalancer_types,
          pd_values = [(''x'', PyBool True), (''y'', PyBool True), (''z'', PyBool True),
                       (''tolerance'', PyFloat (51 / 50)), (''max_iterations'', PyInt 1),
                       (''trigger'', PyTrigger t)]\<rparr> \<and>
   map_of LoadBalancer_types k =
     (if k \<in> {''x'', ''y'', ''z''} then Some TBool
      else if k = ''tolerance'' then Some TFloat
      else if k = ''max_iterations'' then Some TInt
      else if k = ''trigger'' then Some TTrigger
      else None) \<and>
   (LoadBalancer_init conv trigger x y z tolerance max_iterations = Inr pd) =
     (\<exists>vx vy vz vt vm vtr.
        coerce conv TBool (arg_default x (PyBool True)) = Inr vx \<and>
        coerce conv TBool (arg_default y (PyBool True)) = Inr vy \<and>
        coerce conv TBool (arg_default z (PyBool True)) = Inr vz \<and>
        coerce conv TFloat (arg_default tolerance (PyFloat (51 / 50))) = Inr vt \<and>
        coerce conv TInt (arg_default max_iterations (PyInt 1)) = Inr vm \<and>
        coerce conv TTrigger trigger = Inr vtr \<and>
        pd = \<lparr>pd_types = LoadBalancer_types,
              pd_values = [(''x'', vx), (''y'', vy), (''z'', vz), (''tolerance'', vt),
                           (''max_iterations'', vm), (''trigger'', vtr)]\<rparr>)"
proof (intro conjI)
  show "LoadBalancer_init conv (PyTrigger t) None None None None None =
     Inr \<lparr>pd_types = LoadBalancer_types,
          pd_values = [(''x'', PyBool True), (''y'', PyBool True), (''z'', PyBool True),
                       (''tolerance'', PyFloat (51 / 50)), (''max_iterations'', PyInt 1),
                       (''trigger'', PyTrigger t)]\<rparr>"
    by (simp add: LoadBalancer_init_result arg_default_def)
  show "map_of LoadBalancer_types k =
     (if k \<in> {''x'', ''y'', ''z''} then Some TBool
      else if k = ''tolerance'' then Some TFloat
      else if k = ''max_iterations'' then Some TInt
      else if k = ''trigger'' then Some TTrigger
      else None)"
    by (simp add: LoadBalancer_types_def)
qed (rule LoadBalancer_init_result)

section \<open>Selection of the native class\<close>

text \<open>
  Claim C5: attaching a LoadBalancer selects the class \<^verbatim>\<open>_hoomd.LoadBalancerGPU\<close> if and
  only if the device of the simulation is a GPU device, and \<^verbatim>\<open>_hoomd.LoadBalancer\<close>
  otherwise; attaching an Active force selects \<^verbatim>\<open>ActiveForceComputeGPU\<close> if and only if
  the device is not a CPU device. The name that is looked up shows in the
  AttributeError that a module without any class raises, and no other entry of the
  module has an influence on the attachment.
\<close>

theorem attach_class_by_device:
  "LoadBalancer_attach (\<lambda>name. None) lb_super_attach lb =
     Inl (AttributeError
            (if device (lb_simulation lb) = GPU then ''LoadBalancerGPU'' else ''LoadBalancer'')) \<and>
   LoadBalancer_attach hoomd lb_super_attach lb =
     LoadBalancer_attach
       (\<lambda>name. if name = (if device (lb_simulation lb) = GPU
                            then ''LoadBalancerGPU'' else ''LoadBalancer'')
                then hoomd name else None)
       lb_super_attach lb \<and>
   Active_attach (\<lambda>name. None) super_attach self =
     Inl (AttributeError
            (if device (f_simulation self) = CPU
             then ''ActiveForceCompute'' else ''ActiveForceComputeGPU'')) \<and>
   Active_attach md super_attach self =
     Active_attach
       (\<lambda>name. if name = (if device (f_simulation self) = CPU
                            then ''ActiveForceCompute'' else ''ActiveForceComputeGPU'')
                then md name else None)
       super_attach self"
  by (simp add: LoadBalancer_attach_def Active_attach_def module_getattr_def Let_def)

lemma map_of_dict_set_other: "k' \<noteq> k \<Longrightarrow> map_of (dict_set k v ps) k' = map_of ps k'"
  by (induction ps) auto

lemma getattr_param_after_manifold:
  "attr \<noteq> ''manifold_constraint'' \<Longrightarrow>
   getattr_param
     (self\<lparr>f_param_dict := (f_param_dict self)
              \<lparr>pd_values := dict_set ''manifold_constraint'' v
                              (pd_values (f_param_dict self))\<rparr>\<rparr>) attr =
   getattr_param self attr"
  by (simp add: getattr_param_def attached_def ParameterDict_getitem_def map_of_dict_set_other)



text \<open>
  Where the class found under that name returns an object, the attachment goes on as
  \<^verbatim>\<open>Active._attach\<close> on that object.
\<close>

lemma ActiveOnManifold_attach_continues:
  assumes "getattr_param self ''manifold_constraint'' = Inr (PyManifold m)"
    and "manifold_attached m" and "m_cpp_obj m = Some hm"
    and "md (''ActiveForceConstraintCompute'' @ class_name m @
             (if device (f_simulation self) = GPU then ''GPU'' else [])) = Some cls"
    and "getattr_param self ''filter'' = Inr flt"
    and "cls [PyHandle (cpp_sys_def (f_simulation self)),
              PyHandle (get_group (f_simulation self) flt), PyHandle hm] = Inr obj"
  shows "ActiveOnManifold_attach md manifold_attach super_attach self =
           Active_attach md super_attach
             (self\<lparr>f_param_dict := (f_param_dict self)
                      \<lparr>pd_values := dict_set ''manifold_constraint'' (PyManifold m)
                                      (pd_values (f_param_dict self))\<rparr>,
                    f_cpp_obj := Some obj\<rparr>)"
  using assms
  by (cases "device (f_simulation self) = GPU")
    (simp_all add: ActiveOnManifold_attach_def module_getattr_def Let_def
      getattr_param_after_manifold)

section \<open>Parameters of an ActiveOnManifold\<close>

text \<open>
  Claim C7: reading a parameter of a detached ActiveOnManifold returns the locally
  stored value; on an attached one, reading \<^verbatim>\<open>manifold_constraint\<close> returns the locally
  stored value, and reading any other parameter returns what the native object gives.
\<close>

theorem getattr_param_by_attachment:
  "(\<not> attached self \<longrightarrow>
      getattr_param self attr = ParameterDict_getitem (f_param_dict self) attr) \<and>
   (attached self \<longrightarrow>
      getattr_param self ''manifold_constraint'' =
        ParameterDict_getitem (f_param_dict self) ''manifold_constraint'') \<and>
   (f_cpp_obj self = Some obj \<longrightarrow> attr \<noteq> ''manifold_constraint'' \<longrightarrow>
      attached self \<and> getattr_param self attr = native_getattr obj attr)"
  by (simp add: getattr_param_def attached_def)

theorem getattr_param_by_attachment_witness:
  "\<not> attached detached_force \<and>
   getattr_param detached_force ''filter'' = Inr (PyFilter 0) \<and>
   attached attached_force \<and>
   getattr_param attached_force ''manifold_constraint'' = Inr (PyManifold sphere) \<and>
   getattr_param attached_force ''filter'' = Inr (PyFilter 9)"
  using getattr_param_by_attachment [of detached_force "''filter''"]
    getattr_param_by_attachment [of attached_force "''filter''" "[(''filter'', PyFilter 9)]"]
  by (simp add: attached_force_def detached_force_def attached_def ParameterDict_getitem_def
      native_getattr_def)

text \<open>
  Claim C9: setting \<^verbatim>\<open>manifold_constraint\<close> on an ActiveOnManifold raises
  AttributeError whether the object is attached or not, and leaves the object, with its
  stored manifold constraint, as it was; setting any other parameter is what the
  setter of the base class does.
\<close>

theorem setattr_param_manifold_constraint:
  "setattr_param super_setattr_param self ''manifold_constraint'' v =
     (Some (AttributeError ''Cannot set manifold_constraint after construction.''), self) \<and>
   getattr_param (snd (setattr_param super_setattr_param self ''manifold_constraint'' v))
       ''manifold_constraint'' =
     getattr_param self ''manifold_constraint'' \<and>
   (attr \<noteq> ''manifold_constraint'' \<longrightarrow>
      setattr_param super_setattr_param self attr v = super_setattr_param self attr v)"
  by (simp add: setattr_param_def)

theorem setattr_param_manifold_constraint_witness:
  "setattr_param (\<lambda>s a v. (None, s)) attached_force ''manifold_constraint'' PyNone =
     (Some (AttributeError ''Cannot set manifold_constraint after construction.''),
      attached_force) \<and>
   setattr_param (\<lambda>s a v. (None, s)) detached_force ''manifold_constraint'' PyNone =
     (Some (AttributeError ''Cannot set manifold_constraint after construction.''),
      detached_force) \<and>
   setattr_param (\<lambda>s a v. (None, s)) detached_force ''filter'' (PyFilter 5) =
     (None, detached_force)"
  using setattr_param_manifold_constraint [of "\<lambda>s a v. (None, s)" attached_force PyNone "''filter''"]
    setattr_param_manifold_constraint [of "\<lambda>s a v. (None, s)" detached_force PyNone "''filter''"]
    setattr_param_manifold_constraint
      [of "\<lambda>s a v. (None, s)" detached_force "PyFilter 5" "''filter''"]
  by simp

section \<open>Local force arrays of a Custom force\<close>

text \<open>
  Claim C8: reading \<^verbatim>\<open>gpu_local_force_arrays\<close> of a Custom force raises RuntimeError
  whenever the device of the simulation is a GPU device, and also when the object is
  inside another local-force-arrays context manager; it returns a ForceLocalAccessGPU
  object only when the device is not a GPU device and no context manager is active,
  and the object is then what the class bound to the name
  \<^verbatim>\<open>ForceLocalAccessGPU\<close> makes of the force.
\<close>

theorem gpu_local_force_arrays_guard:
  "(device (c_simulation self) = GPU \<longrightarrow>
      gpu_local_force_arrays globals self =
        Inl (RuntimeError ''Cannot access gpu_local_force_arrays without a GPU device'')) \<and>
   (in_context_manager self \<longrightarrow>
      (\<exists>msg. gpu_local_force_arrays globals self = Inl (RuntimeError msg))) \<and>
   (gpu_local_force_arrays globals self = Inr r \<longrightarrow>
      device (c_simulation self) \<noteq> GPU \<and> \<not> in_context_manager self \<and>
      (\<exists>cls. globals ''ForceLocalAccessGPU'' = Some cls \<and> cls self = Inr r))"
  by (auto simp add: gpu_local_force_arrays_def split: option.splits)

theorem gpu_local_force_arrays_guard_witness:
  "gpu_local_force_arrays access_bound \<lparr>c_simulation = gpu_sim, in_context_manager = False\<rparr> =
     Inl (RuntimeError ''Cannot access gpu_local_force_arrays without a GPU device'') \<and>
   isl (gpu_local_force_arrays access_bound
          \<lparr>c_simulation = cpu_sim, in_context_manager = True\<rparr>) \<and>
   gpu_local_force_arrays access_bound \<lparr>c_simulation = cpu_sim, in_context_manager = False\<rparr> =
     Inr \<lparr>c_simulation = cpu_sim, in_context_manager = False\<rparr> \<and>
   device cpu_sim \<noteq> GPU"
proof -
  have r: "gpu_local_force_arrays access_bound
             \<lparr>c_simulation = cpu_sim, in_context_manager = False\<rparr> =
           Inr \<lparr>c_simulation = cpu_sim, in_context_manager = False\<rparr>"
    by (simp add: gpu_local_force_arrays_def access_bound_def cpu_sim_def)
  show ?thesis
    using r
      gpu_local_force_arrays_guard
        [of "\<lparr>c_simulation = gpu_sim, in_context_manager = False\<rparr>" access_bound
            "\<lparr>c_simulation = cpu_sim, in_context_manager = False\<rparr>"]
      gpu_local_force_arrays_guard
        [of "\<lparr>c_simulation = cpu_sim, in_context_manager = True\<rparr>" access_bound
            "\<lparr>c_simulation = cpu_sim, in_context_manager = False\<rparr>"]
      gpu_local_force_arrays_guard
        [of "\<lparr>c_simulation = cpu_sim, in_context_manager = False\<rparr>" access_bound
            "\<lparr>c_simulation = cpu_sim, in_context_manager = False\<rparr>"]
    by (auto simp add: gpu_sim_def cpu_sim_def)
qed

text \<open>
  In the module as the source gives it the name is unbound: on a device that is not a
  GPU device and outside a context manager the property raises NameError.
\<close>

lemma gpu_local_force_arrays_unbound:
  "device (c_simulation self) \<noteq> GPU \<Longrightarrow> \<not> in_context_manager self \<Longrightarrow>
   gpu_local_force_arrays (\<lambda>name. None) self = Inl (NameError ''ForceLocalAccessGPU'')"
  by (simp add: gpu_local_force_arrays_def)

section \<open>The rebalancing of one axis\<close>


lemma AxisRebalancer_nth:
  "i < length bs \<Longrightarrow>
   AxisRebalancer desired loads bs ! i =
     (if interior bs i then bs ! i + clamp_shift (max_shift bs i) (desired loads bs i)
      else bs ! i)"
  by (simp add: AxisRebalancer_def)

lemma clamp_shift_abs: "0 \<le> m \<Longrightarrow> \<bar>clamp_shift m d\<bar> \<le> m"
  by (simp add: clamp_shift_def abs_le_iff)


lemma slab_widths_positive:
  assumes "strictly_increasing bs" "interior bs i"
  shows "bs ! (i - 1) < bs ! i" "bs ! i < bs ! (i + 1)"
  using assms
  by (auto simp add: strictly_increasing_def interior_def sorted_wrt_iff_nth_less)

lemma max_shift_bounds:
  assumes "strictly_increasing bs" "interior bs i"
  shows "0 \<le> max_shift bs i"
    and "max_shift bs i \<le> 5 / 100 * (bs ! i - bs ! (i - 1))"
    and "max_shift bs i \<le> 1 / 2 * (bs ! (i + 1) - bs ! i)"
  using slab_widths_positive [OF assms]
  by (simp_all add: max_shift_def min_def)

lemma clamped_shift_bound:
  assumes "strictly_increasing bs" "interior bs i"
  shows "\<bar>clamp_shift (max_shift bs i) d\<bar> \<le> max_shift bs i"
  using max_shift_bounds(1) [OF assms] by (rule clamp_shift_abs)

text \<open>
  Claim C3: the shift that one call of the AxisRebalancer applies to an interior
  boundary is at most the minimum of 5% of the width of the boundary's own slab and
  50% of the distance to the nearest other boundary on either side. The bound is
  stated for the boundary next to it on each side, so it holds for whichever of them
  move.
\<close>

theorem AxisRebalancer_shift_bound:
  assumes "strictly_increasing bs" and "interior bs i"
  shows "\<bar>AxisRebalancer desired loads bs ! i - bs ! i\<bar>
           \<le> min (5 / 100 * (bs ! i - bs ! (i - 1)))
                 (1 / 2 * min (bs ! i - bs ! (i - 1)) (bs ! (i + 1) - bs ! i))"
proof -
  have "i < length bs"
    using assms(2) by (simp add: interior_def)
  then have "AxisRebalancer desired loads bs ! i - bs ! i =
      clamp_shift (max_shift bs i) (desired loads bs i)"
    using assms(2) by (simp add: AxisRebalancer_nth)
  moreover have "\<bar>clamp_shift (max_shift bs i) (desired loads bs i)\<bar> \<le> max_shift bs i"
    using assms by (rule clamped_shift_bound)
  ultimately show ?thesis
    by (simp add: max_shift_def)
qed

theorem AxisRebalancer_shift_bound_witness:
  "strictly_increasing [0, 10, 20, 30, 40] \<and> interior [0, 10, 20, 30, 40] 2 \<and>
   AxisRebalancer (\<lambda>loads bs i. 3) [100, 100, 300, 100] [0, 10, 20, 30, 40] ! 2 = 20 + 1 / 2 \<and>
   \<bar>AxisRebalancer (\<lambda>loads bs i. 3) [100, 100, 300, 100] [0, 10, 20, 30, 40] ! 2 - 20\<bar>
     \<le> 1 / 2"
  using AxisRebalancer_shift_bound
          [of "[0, 10, 20, 30, 40]" 2 "\<lambda>loads bs i. 3" "[100, 100, 300, 100]"]
  by (simp add: strictly_increasing_def interior_def AxisRebalancer_def max_shift_def
      clamp_shift_def upt_rec)







section \<open>An invocation of the balancer\<close>













text \<open>
  Claim C4: an invocation with no multi-rank domain decomposition active, or with a
  total particle count of zero, leaves every boundary sequence as it was. An
  invocation returns a grid and nothing else: it has no way to raise.
\<close>

theorem invoke_noop_when_ineligible:
  "\<not> decomposition_active env \<or> n_global env = 0 \<Longrightarrow> invoke desired env cfg g = g"
  by (simp add: invoke_def)

theorem invoke_noop_when_ineligible_witness:
  "\<not> decomposition_active (env0\<lparr>decomposition_active := False\<rparr>) \<and>
   invoke (\<lambda>loads bs i. 3) (env0\<lparr>decomposition_active := False\<rparr>) cfg0 grid0 = grid0 \<and>
   n_global (env0\<lparr>n_global := 0\<rparr>) = 0 \<and>
   invoke (\<lambda>loads bs i. 3) (env0\<lparr>n_global := 0\<rparr>) cfg0 grid0 = grid0"
  using invoke_noop_when_ineligible
          [of "env0\<lparr>decomposition_active := False\<rparr>" "\<lambda>loads bs i. 3" cfg0 grid0]
    invoke_noop_when_ineligible [of "env0\<lparr>n_global := 0\<rparr>" "\<lambda>loads bs i. 3" cfg0 grid0]
  by simp

end
